theory Spec2Isabelle
  imports Complex_Main
begin

section \<open>Conventions of the embedding\<close>

text \<open>
  The program is \<^verbatim>\<open>src/main.py\<close>: a chat bot that polls a marketplace endpoint and
  posts a notification for every listing it has not seen before.

  \<^item> Python \<^verbatim>\<open>str\<close> is \<open>string\<close>; the command text and the listing fields are taken to be
    ASCII, so that a character is a byte. A pictograph that the source puts in front of a
    message or a field name is written as its name in square brackets.
  \<^item> Python \<^verbatim>\<open>int\<close> is \<open>int\<close>. A Python \<^verbatim>\<open>float\<close> is modelled by the exact rational
    \<open>rat\<close> it approximates: \<^verbatim>\<open>a / b\<close> is exact division and a comparison is the comparison
    of the exact values. The rounding of binary floating point is outside the model.
  \<^item> A \<^verbatim>\<open>dict\<close> whose keys are fixed by the endpoint is a record, with \<open>option\<close> for a key
    that may be missing; a \<^verbatim>\<open>dict\<close> built by the program is an association list in
    insertion order.
  \<^item> A listing is well formed: every key the builder reads with \<^verbatim>\<open>[...]\<close> is there, a
    value has the type the endpoint gives it (no JSON \<^verbatim>\<open>null\<close>), and \<^verbatim>\<open>created_at\<close> is a time
    stamp that \<^verbatim>\<open>datetime.fromisoformat\<close> reads. So the builder does not raise.
  \<^item> What is outside the program is a parameter of the model: the answer of the endpoint
    to a request, whether a channel id resolves, whether the transport accepts a send.
  \<^item> A tick of the polling loop and a command each run as one step; the interleaving of
    the two at an \<^verbatim>\<open>await\<close>, the jitter delay, logging and the cancellation of a task are
    outside the model.
\<close>

section \<open>Formatting numbers\<close>

definition digit_char :: "nat \<Rightarrow> char" where
  "digit_char d = ''0123456789'' ! (d mod 10)"

fun show_nat :: "nat \<Rightarrow> string" where
  "show_nat n = (if n < 10 then [digit_char n] else show_nat (n div 10) @ [digit_char n])"

declare show_nat.simps [simp del]

definition show_int :: "int \<Rightarrow> string" where
  "show_int i = (if i < 0 then CHR ''-'' # show_nat (nat (- i)) else show_nat (nat i))"

text \<open>Rounding a non-negative rational to the nearest natural number, ties to even.\<close>

definition round_half_even :: "rat \<Rightarrow> nat" where
  "round_half_even a =
     (let f = \<lfloor>a\<rfloor>; d = a - of_int f
      in nat (if d < 1 / 2 then f
              else if 1 / 2 < d then f + 1
              else if even f then f else f + 1))"

definition pad_zeros :: "nat \<Rightarrow> string \<Rightarrow> string" where
  "pad_zeros n s = replicate (n - length s) CHR ''0'' @ s"

text \<open>
  \<open>fmt_fixed n x\<close> is the format specification \<^verbatim>\<open>f"{x:.nf}"\<close> for \<open>0 < n\<close>: \<open>n\<close> digits after
  the point, the value rounded to the nearest, a minus sign for every negative value
  (also for one that rounds to zero).
\<close>

definition fmt_fixed :: "nat \<Rightarrow> rat \<Rightarrow> string" where
  "fmt_fixed n x =
     (let q = round_half_even (\<bar>x\<bar> * 10 ^ n)
      in (if x < 0 then ''-'' else '''')
         @ show_nat (q div 10 ^ n) @ ''.'' @ pad_zeros n (show_nat (q mod 10 ^ n)))"

section \<open>Listings\<close>

record seller =
  username :: "string option"
  obfuscated_id :: "string option"

record reference =
  predicted_price :: "int option"
  base_price :: "int option"

record item =
  market_hash_name :: string
  float_value :: rat
  paint_seed :: "int option"
  wear_name :: "string option"
  is_stattrak :: "bool option"
  is_souvenir :: "bool option"
  rarity :: "int option"
  stickers :: "string list option"
  icon_url :: "string option"

record listing =
  listing_id :: string
  listing_item :: item
  listing_seller :: seller
  created_at :: string
  price :: int
  listing_reference :: "reference option"
  watchers :: "int option"
  description :: "string option"

section \<open>The notification builder\<close>

record embed_field =
  field_name :: string
  field_value :: string
  field_inline :: bool

record embed =
  embed_title :: string
  embed_url :: string
  embed_timestamp :: string
  embed_fields :: "embed_field list"
  embed_thumbnail :: "string option"
  embed_footer :: string

definition add_field :: "string \<Rightarrow> string \<Rightarrow> bool \<Rightarrow> embed_field" where
  "add_field n v i = \<lparr>field_name = n, field_value = v, field_inline = i\<rparr>"

text \<open>\<^verbatim>\<open>sep.join(xs)\<close>.\<close>

fun join :: "string \<Rightarrow> string list \<Rightarrow> string" where
  "join sep [] = []"
| "join sep [x] = x"
| "join sep (x # y # ys) = x @ sep @ join sep (y # ys)"

text \<open>\<^verbatim>\<open>s.replace('Z', '+00:00')\<close>.\<close>

definition replace_Z :: "string \<Rightarrow> string" where
  "replace_Z s = concat (map (\<lambda>c. if c = CHR ''Z'' then ''+00:00'' else [c]) s)"

text \<open>\<^verbatim>\<open>s.startswith(p)\<close>.\<close>

definition startswith :: "string \<Rightarrow> string \<Rightarrow> bool" where
  "startswith s p = (take (length p) s = p)"

text \<open>Lines 110 to 118: the special flags, or the rarity grade when there is none.\<close>

definition special_field :: "item \<Rightarrow> embed_field" where
  "special_field it =
     (let special = (if is_stattrak it = Some True then [''StatTrak(TM)''] else [])
                    @ (if is_souvenir it = Some True then [''Souvenir''] else [])
      in if special \<noteq> [] then add_field ''[sparkles] Special'' (join '' | '' special) True
         else add_field ''[bar_chart] Rarity''
                (''Grade '' @ (case rarity it of None \<Rightarrow> ''Unknown'' | Some r \<Rightarrow> show_int r)) True)"

text \<open>
  Lines 121 to 123. \<^verbatim>\<open>seller.get('username', 'Anonymous')\<close> gives the default only when the
  key is missing; \<^verbatim>\<open>not seller_name\<close> holds of the empty string;
  \<^verbatim>\<open>seller.get('obfuscated_id')\<close> is true of a non-empty string.
\<close>

definition seller_name :: "seller \<Rightarrow> string" where
  "seller_name s =
     (let name = (case username s of None \<Rightarrow> ''Anonymous'' | Some u \<Rightarrow> u)
      in case obfuscated_id s of
           Some ob \<Rightarrow> if name = [] \<and> ob \<noteq> [] then ''User '' @ take 8 ob @ ''...'' else name
         | None \<Rightarrow> name)"

definition seller_field :: "seller \<Rightarrow> embed_field" where
  "seller_field s = add_field ''[bust] Seller'' (seller_name s) True"

text \<open>
  Lines 138 to 155: the divergence field, from the price and the predicted price in
  display currency.
\<close>

definition divergence_pct :: "rat \<Rightarrow> rat \<Rightarrow> rat" where
  "divergence_pct price_usd predicted = ((price_usd - predicted) / predicted) * 100"

definition divergence_field :: "rat \<Rightarrow> rat \<Rightarrow> embed_field" where
  "divergence_field price_usd predicted =
     (let d = divergence_pct price_usd predicted
      in if 0 < d then add_field ''[chart_up] Divergence'' (''+'' @ fmt_fixed 1 d @ ''%'') True
         else if d < 0 then add_field ''[chart_down] Divergence'' (fmt_fixed 1 d @ ''%'') True
         else add_field ''[scales] Divergence'' ''0.0%'' True)"

definition discount_pct :: "rat \<Rightarrow> rat \<Rightarrow> rat" where
  "discount_pct price_usd predicted = ((predicted - price_usd) / predicted) * 100"

text \<open>
  Lines 127 to 160. A missing \<^verbatim>\<open>reference\<close> is the empty dict, which is false; so is a
  dict without keys, and there both prices are 0 and nothing is emitted either.
\<close>

definition reference_fields :: "int \<Rightarrow> reference option \<Rightarrow> embed_field list" where
  "reference_fields cents ref =
     (case ref of
        None \<Rightarrow> []
      | Some r \<Rightarrow>
          (let price_usd = of_int cents / 100;
               predicted = of_int (case predicted_price r of None \<Rightarrow> 0 | Some p \<Rightarrow> p) / 100;
               base = of_int (case base_price r of None \<Rightarrow> 0 | Some b \<Rightarrow> b) / (100 :: rat)
           in (if 0 < predicted
               then [add_field ''[chart_up] Predicted'' (''$'' @ fmt_fixed 2 predicted) True,
                     divergence_field price_usd predicted]
               else [])
              @ (if 0 < base \<and> price_usd < predicted
                 then [add_field ''[money_wings] Discount''
                         (fmt_fixed 1 (discount_pct price_usd predicted) @ ''%'') True]
                 else [])))"

text \<open>Lines 163 to 169.\<close>

definition sticker_fields :: "item \<Rightarrow> embed_field list" where
  "sticker_fields it =
     (case stickers it of
        None \<Rightarrow> []
      | Some st \<Rightarrow>
          if st = [] then []
          else [add_field ''[label] Stickers''
                  (join [CHR 0x0A] (take 3 st)
                   @ (if 3 < length st
                      then [CHR 0x0A] @ ''... and '' @ show_nat (length st - 3) @ '' more''
                      else []))
                  False])"

text \<open>Lines 172 to 174.\<close>

definition watcher_fields :: "int option \<Rightarrow> embed_field list" where
  "watcher_fields w =
     (case w of
        None \<Rightarrow> []
      | Some n \<Rightarrow> if 0 < n then [add_field ''[eyes] Watchers'' (show_int n) True] else [])"

text \<open>Lines 177 to 186: all three branches that set a thumbnail; the last two are the same.\<close>

definition thumbnail :: "item \<Rightarrow> string option" where
  "thumbnail it =
     (case icon_url it of
        None \<Rightarrow> None
      | Some u \<Rightarrow>
          if u = [] then None
          else if startswith u ''http'' then Some u
          else if startswith u ''-9a81''
          then Some (''https://steamcommunity-a.akamaihd.net/economy/image/'' @ u)
          else Some (''https://steamcommunity-a.akamaihd.net/economy/image/'' @ u))"

text \<open>Lines 189 to 191.\<close>

definition note_fields :: "string option \<Rightarrow> embed_field list" where
  "note_fields d =
     (case d of
        None \<Rightarrow> []
      | Some t \<Rightarrow>
          if t = [] then []
          else [add_field ''[memo] Note''
                  (take 100 t @ (if 100 < length t then ''...'' else [])) False])"

text \<open>
  \<^verbatim>\<open>CSFloatBot.create_listing_embed\<close>. The timestamp is kept as the text handed to
  \<^verbatim>\<open>datetime.fromisoformat\<close>.
\<close>

definition create_listing_embed :: "listing \<Rightarrow> embed" where
  "create_listing_embed l =
     (let it = listing_item l
      in \<lparr>embed_title = market_hash_name it,
          embed_url = ''https://csfloat.com/item/'' @ listing_id l,
          embed_timestamp = replace_Z (created_at l),
          embed_fields =
            [add_field ''[moneybag] Price'' (''$'' @ fmt_fixed 2 (of_int (price l) / 100)) True,
             add_field ''[dart] Float'' (fmt_fixed 6 (float_value it)) True,
             add_field ''[palette] Paint Seed''
               (case paint_seed it of None \<Rightarrow> ''N/A'' | Some p \<Rightarrow> show_int p) True,
             add_field ''[shirt] Condition''
               (case wear_name it of None \<Rightarrow> ''Unknown'' | Some w \<Rightarrow> w) True,
             special_field it,
             seller_field (listing_seller l)]
            @ reference_fields (price l) (listing_reference l)
            @ sticker_fields it
            @ watcher_fields (watchers l)
            @ note_fields (description l),
          embed_thumbnail = thumbnail it,
          embed_footer = ''CS Float - ID: '' @ listing_id l\<rparr>)"

section \<open>The state of the bot\<close>

text \<open>A query parameter is an \<^verbatim>\<open>int\<close>, a \<^verbatim>\<open>float\<close> or a \<^verbatim>\<open>str\<close>.\<close>

datatype pval = PInt int | PFloat rat | PStr string

type_synonym params = "(string \<times> pval) list"

text \<open>
  \<^verbatim>\<open>d[k] = v\<close> on a dict in insertion order: a key already there keeps its place, a new
  key goes last. \<^verbatim>\<open>del d[k]\<close> removes the key.
\<close>

fun dict_set :: "'k \<Rightarrow> 'v \<Rightarrow> ('k \<times> 'v) list \<Rightarrow> ('k \<times> 'v) list" where
  "dict_set k v [] = [(k, v)]"
| "dict_set k v ((k', v') # d) = (if k' = k then (k, v) # d else (k', v') # dict_set k v d)"

fun dict_del :: "'k \<Rightarrow> ('k \<times> 'v) list \<Rightarrow> ('k \<times> 'v) list" where
  "dict_del k [] = []"
| "dict_del k ((k', v') # d) = (if k' = k then d else (k', v') # dict_del k d)"

record config =
  params :: params
  channel :: int

record bot =
  csfloat_api_key :: "string option"
  channel_id :: int
  seen_listings :: "string set"
  tracking_configs :: "(string \<times> config) list"

section \<open>The fetch client\<close>

text \<open>
  What the endpoint does with a request is not the program's: it is a parameter. A request
  is the query parameters and the headers; the outcome is an exception of the transport
  (time-out, connection reset), or a status with a body, which is either not JSON or an
  object whose \<^verbatim>\<open>data\<close> key may be missing.
\<close>

record request =
  req_params :: params
  req_headers :: "(string \<times> string) list"

datatype body = Malformed | Envelope "listing list option"

datatype http_outcome = TransportError | Response nat body

datatype exn = Exception

type_synonym endpoint = "request \<Rightarrow> http_outcome"

text \<open>Lines 68 to 71: the header is attached only for a key that is set and not empty.\<close>

definition build_request :: "bot \<Rightarrow> params \<Rightarrow> request" where
  "build_request b ps =
     \<lparr>req_params = ps,
      req_headers = (case csfloat_api_key b of
                       None \<Rightarrow> []
                     | Some k \<Rightarrow> if k = [] then [] else [(''Authorization'', k)])\<rparr>"

text \<open>Lines 74 to 82, the body of the \<^verbatim>\<open>try\<close>: \<open>Inl\<close> is an exception raised inside it.\<close>

definition fetch_try :: "http_outcome \<Rightarrow> exn + listing list" where
  "fetch_try r =
     (case r of
        TransportError \<Rightarrow> Inl Exception
      | Response status b \<Rightarrow>
          if status = 200
          then (case b of
                  Malformed \<Rightarrow> Inl Exception
                | Envelope d \<Rightarrow> Inr (case d of None \<Rightarrow> [] | Some ls \<Rightarrow> ls))
          else Inr [])"

text \<open>\<^verbatim>\<open>CSFloatBot.fetch_listings\<close>: the \<^verbatim>\<open>try\<close> with its \<^verbatim>\<open>except Exception\<close>.\<close>

definition fetch_listings :: "endpoint \<Rightarrow> bot \<Rightarrow> params \<Rightarrow> exn + listing list" where
  "fetch_listings api b ps =
     (case fetch_try (api (build_request b ps)) of
        Inl e \<Rightarrow> Inr []
      | Inr ls \<Rightarrow> Inr ls)"

section \<open>The polling scheduler\<close>

text \<open>
  A call of \<^verbatim>\<open>channel.send\<close> is recorded with the configuration and the listing it is
  for, and with whether the transport accepted it (\<open>d_ok\<close>) or raised.
\<close>

record dispatch =
  d_config :: string
  d_listing :: string
  d_text :: string
  d_embed :: embed
  d_ok :: bool

text \<open>Lines 215 to 220: the loop that collects the new listings and marks them seen.\<close>

fun mark_new :: "listing list \<Rightarrow> listing list \<Rightarrow> string set \<Rightarrow> listing list \<times> string set" where
  "mark_new [] new seen = (new, seen)"
| "mark_new (l # ls) new seen =
     (if listing_id l \<notin> seen
      then mark_new ls (new @ [l]) (insert (listing_id l) seen)
      else mark_new ls new seen)"

text \<open>
  Lines 223 to 225: the loop that sends. A send that raises leaves the loop, for the
  \<^verbatim>\<open>except\<close> of line 230.
\<close>

fun send_all :: "(listing \<Rightarrow> bool) \<Rightarrow> string \<Rightarrow> listing list \<Rightarrow> dispatch list" where
  "send_all ok name [] = []"
| "send_all ok name (l # ls) =
     (let d = \<lparr>d_config = name, d_listing = listing_id l,
                d_text = ''[new] **New '' @ name @ '' Listing!**'',
                d_embed = create_listing_embed l, d_ok = ok l\<rparr>
      in if ok l then d # send_all ok name ls else [d])"

text \<open>
  What a polling cycle meets outside the program: which channel ids resolve, what the
  endpoint answers when the configuration of a given name is polled, and which sends the
  transport accepts.
\<close>

record env =
  get_channel :: "int \<Rightarrow> bool"
  env_api :: "string \<Rightarrow> endpoint"
  send_ok :: "string \<Rightarrow> listing \<Rightarrow> bool"

text \<open>Lines 210 to 231: one configuration, inside its \<^verbatim>\<open>try\<close>.\<close>

definition check_config :: "env \<Rightarrow> string \<times> config \<Rightarrow> bot \<times> dispatch list \<Rightarrow> bot \<times> dispatch list" where
  "check_config e nc st =
     (case st of (b, out) \<Rightarrow>
      case nc of (name, cfg) \<Rightarrow>
        (case fetch_listings (env_api e name) b (params cfg) of
           Inl ex \<Rightarrow> (b, out)
         | Inr listings \<Rightarrow>
             (case mark_new listings [] (seen_listings b) of
                (new, seen) \<Rightarrow>
                  (b\<lparr>seen_listings := seen\<rparr>, out @ send_all (send_ok e name) name (take 5 new)))))"

text \<open>\<^verbatim>\<open>CSFloatBot.check_listings\<close>: one tick of the loop.\<close>

definition check_listings :: "env \<Rightarrow> bot \<Rightarrow> bot \<times> dispatch list" where
  "check_listings e b =
     (if tracking_configs b = [] then (b, [])
      else if \<not> get_channel e (channel_id b) then (b, [])
      else fold (check_config e) (tracking_configs b) (b, []))"

section \<open>Reading the parameters of a command\<close>

text \<open>\<^verbatim>\<open>SortOption\<close>: the values of the enumeration, in its order.\<close>

definition sort_options :: "string list" where
  "sort_options =
     [''best_deal'', ''highest_discount'', ''lowest_price'', ''highest_price'',
      ''most_recent'', ''lowest_float'', ''highest_float'', ''created_at'']"

text \<open>\<^verbatim>\<open>SortOption(value).value\<close>: the value itself, or \<^verbatim>\<open>ValueError\<close>.\<close>

definition SortOption :: "string \<Rightarrow> string option" where
  "SortOption v = (if v \<in> set sort_options then Some v else None)"

text \<open>\<^verbatim>\<open>str.split()\<close>: the maximal runs of characters that are not white space.\<close>

definition is_space :: "char \<Rightarrow> bool" where
  "is_space c = (c \<in> set [CHR 0x09, CHR 0x0A, CHR 0x0B, CHR 0x0C, CHR 0x0D,
                           CHR 0x1C, CHR 0x1D, CHR 0x1E, CHR 0x1F, CHR 0x20])"

fun split_ws :: "string \<Rightarrow> string \<Rightarrow> string list" where
  "split_ws cur [] = (if cur = [] then [] else [cur])"
| "split_ws cur (c # cs) =
     (if is_space c then (if cur = [] then split_ws [] cs else cur # split_ws [] cs)
      else split_ws (cur @ [c]) cs)"

definition py_split :: "string \<Rightarrow> string list" where
  "py_split s = split_ws [] s"

text \<open>
  \<^verbatim>\<open>int(s)\<close> and \<^verbatim>\<open>float(s)\<close> on a token of the command: a sign, then decimal digits, where
  one underscore may stand between two digits. \<open>None\<close> is \<^verbatim>\<open>ValueError\<close>. A token has no
  white space, so none is stripped; the limit of \<^verbatim>\<open>int\<close> on the number of digits and the
  overflow of \<^verbatim>\<open>float\<close> to infinity are outside the model.
\<close>

definition is_digit :: "char \<Rightarrow> bool" where
  "is_digit c = (c \<in> set ''0123456789'')"

definition digit_val :: "char \<Rightarrow> nat" where
  "digit_val c = of_char c - 48"

fun digits_from :: "nat \<Rightarrow> string \<Rightarrow> nat option" where
  "digits_from acc [] = Some acc"
| "digits_from acc [c] = (if is_digit c then Some (acc * 10 + digit_val c) else None)"
| "digits_from acc (c # d # cs) =
     (if is_digit c then digits_from (acc * 10 + digit_val c) (d # cs)
      else if c = CHR ''_'' \<and> is_digit d then digits_from acc (d # cs)
      else None)"

definition digitpart :: "string \<Rightarrow> nat option" where
  "digitpart s =
     (case s of [] \<Rightarrow> None | c # cs \<Rightarrow> if is_digit c then digits_from 0 s else None)"

definition split_sign :: "string \<Rightarrow> bool \<times> string" where
  "split_sign s =
     (case s of
        [] \<Rightarrow> (False, [])
      | c # cs \<Rightarrow>
          if c = CHR ''-'' then (True, cs) else if c = CHR ''+'' then (False, cs) else (False, s))"

definition py_int :: "string \<Rightarrow> int option" where
  "py_int s =
     (case split_sign s of (neg, t) \<Rightarrow>
        (case digitpart t of
           None \<Rightarrow> None
         | Some n \<Rightarrow> Some (if neg then - int n else int n)))"

text \<open>
  \<^verbatim>\<open>float(s)\<close> is called only on a token that contains a point, so the spellings of
  infinity and of not-a-number never parse. The value is the exact decimal.
\<close>

definition is_exp :: "char \<Rightarrow> bool" where
  "is_exp c = (c = CHR ''e'' \<or> c = CHR ''E'')"

definition count_digits :: "string \<Rightarrow> nat" where
  "count_digits s = length (filter is_digit s)"

definition mantissa :: "string \<Rightarrow> rat option" where
  "mantissa m =
     (let ip = takeWhile (\<lambda>c. c \<noteq> CHR ''.'') m; rest = dropWhile (\<lambda>c. c \<noteq> CHR ''.'') m
      in if rest = [] then map_option of_nat (digitpart ip)
         else (let fp = tl rest
               in if ip = [] \<and> fp = [] then None
                  else (case (if ip = [] then Some 0 else digitpart ip) of
                          None \<Rightarrow> None
                        | Some i \<Rightarrow>
                            (case (if fp = [] then Some 0 else digitpart fp) of
                               None \<Rightarrow> None
                             | Some f \<Rightarrow> Some (of_nat i + of_nat f / 10 ^ count_digits fp)))))"

definition py_float :: "string \<Rightarrow> rat option" where
  "py_float s =
     (case split_sign s of (neg, t) \<Rightarrow>
        (let m = takeWhile (\<lambda>c. \<not> is_exp c) t; rest = dropWhile (\<lambda>c. \<not> is_exp c) t
         in case mantissa m of
              None \<Rightarrow> None
            | Some v \<Rightarrow>
                (let w = (if neg then - v else v)
                 in if rest = [] then Some w
                    else (case py_int (tl rest) of
                            None \<Rightarrow> None
                          | Some x \<Rightarrow>
                              Some (if 0 \<le> x then w * 10 ^ nat x else w / 10 ^ nat (- x))))))"

text \<open>Lines 276 to 282: a value that reads as a number becomes one, any other stays text.\<close>

definition convert :: "string \<Rightarrow> pval" where
  "convert v =
     (if CHR ''.'' \<in> set v
      then (case py_float v of Some f \<Rightarrow> PFloat f | None \<Rightarrow> PStr v)
      else (case py_int v of Some i \<Rightarrow> PInt i | None \<Rightarrow> PStr v))"

text \<open>
  Lines 260 to 282: the loop over the tokens. \<open>Inl v\<close> is the \<^verbatim>\<open>return\<close> of line 273, at
  the sort option \<open>v\<close> that is not one of the enumeration.
\<close>

fun parse_params :: "string list \<Rightarrow> params \<Rightarrow> string + params" where
  "parse_params [] pd = Inr pd"
| "parse_params (param # rest) pd =
     (if CHR ''='' \<in> set param
      then (let key = takeWhile (\<lambda>c. c \<noteq> CHR ''='') param;
                val = tl (dropWhile (\<lambda>c. c \<noteq> CHR ''='') param)
            in if key = ''sort_by''
               then (case SortOption val of
                       Some sort_value \<Rightarrow> parse_params rest (dict_set key (PStr sort_value) pd)
                     | None \<Rightarrow> Inl val)
               else parse_params rest (dict_set key (convert val) pd))
      else parse_params rest pd)"

section \<open>The commands\<close>

text \<open>
  What a command sends back with \<^verbatim>\<open>ctx.send\<close>. A text is the text itself. The embed of
  \<^verbatim>\<open>track\<close> is its tracking name and its parameters, with the count of the initial check in
  the second one; the embed of \<^verbatim>\<open>list_tracking\<close> is the name and the parameters of every
  configuration, in the order of the dict. How a parameter value is printed is left to the
  embed. \<open>SetupError\<close> is the message of line 324, which carries the text of the exception.
\<close>

datatype reply =
  Text string
| TrackingStarted string params "nat option"
| TrackingList "(string \<times> params) list"
| Example embed
| SetupError

definition invalid_sort_message :: "string \<Rightarrow> string" where
  "invalid_sort_message v =
     ''[x] Invalid sort option '' @ [CHR 0x27] @ v @ [CHR 0x27] @ ''. Valid options: ''
     @ join '', '' sort_options"

text \<open>
  \<^verbatim>\<open>track_items\<close>. \<open>ctx_ok i\<close> says whether the \<open>i\<close>-th \<^verbatim>\<open>ctx.send\<close> of the \<^verbatim>\<open>try\<close> is
  accepted; one that raises is answered by the \<^verbatim>\<open>except\<close> of line 323.
\<close>

definition track_items ::
  "endpoint \<Rightarrow> (nat \<Rightarrow> bool) \<Rightarrow> int \<Rightarrow> string \<Rightarrow> int \<Rightarrow> int \<Rightarrow> string \<Rightarrow> bot \<Rightarrow> bot \<times> reply list" where
  "track_items api ctx_ok ctx_channel name def_index paint_index ptext b =
     (let param_dict = [(''def_index'', PInt def_index), (''paint_index'', PInt paint_index),
                        (''limit'', PInt 20), (''sort_by'', PStr ''best_deal'')]
      in case parse_params (if ptext = [] then [] else py_split ptext) param_dict of
           Inl v \<Rightarrow>
             (b, Text (invalid_sort_message v) # (if ctx_ok 0 then [] else [SetupError]))
         | Inr pd \<Rightarrow>
             (let b1 = b\<lparr>tracking_configs :=
                          dict_set name \<lparr>params = pd, channel = ctx_channel\<rparr> (tracking_configs b)\<rparr>;
                  b2 = (if length (tracking_configs b1) = 1
                        then b1\<lparr>channel_id := ctx_channel\<rparr> else b1);
                  started = TrackingStarted name pd None
              in if \<not> ctx_ok 0 then (b2, [started, SetupError])
                 else (case fetch_listings api b2 pd of
                         Inl ex \<Rightarrow> (b2, [started, SetupError])
                       | Inr initial \<Rightarrow>
                           if initial = [] then (b2, [started])
                           else (b2\<lparr>seen_listings :=
                                      fold (\<lambda>l s. insert (listing_id l) s) initial (seen_listings b2)\<rparr>,
                                 [started, TrackingStarted name pd (Some (length initial))]
                                 @ (if ctx_ok 1 then [] else [SetupError])))))"

text \<open>\<^verbatim>\<open>untrack_items\<close>.\<close>

definition untrack_items :: "string \<Rightarrow> bot \<Rightarrow> bot \<times> reply list" where
  "untrack_items name b =
     (if name \<in> set (map fst (tracking_configs b))
      then (b\<lparr>tracking_configs := dict_del name (tracking_configs b)\<rparr>,
            [Text (''[check] Stopped tracking **'' @ name @ ''**'')])
      else (b, [Text (''[x] No tracking configuration found for **'' @ name @ ''**'')]))"

text \<open>\<^verbatim>\<open>list_tracking\<close>.\<close>

definition list_tracking :: "bot \<Rightarrow> reply list" where
  "list_tracking b =
     (if tracking_configs b = [] then [Text ''No items are currently being tracked.'']
      else [TrackingList (map (\<lambda>(name, cfg). (name, params cfg)) (tracking_configs b))])"

text \<open>\<^verbatim>\<open>test_fetch\<close>. A paint index that is missing or 0 is left out of the query.\<close>

definition test_fetch ::
  "endpoint \<Rightarrow> int \<Rightarrow> int option \<Rightarrow> int \<Rightarrow> string \<Rightarrow> bot \<Rightarrow> exn + reply list" where
  "test_fetch api def_index paint_index limit sort_by b =
     (let paint = (case paint_index of None \<Rightarrow> [] | Some p \<Rightarrow> if p = 0 then [] else [p]);
          ps = [(''def_index'', PInt def_index), (''limit'', PInt limit)]
               @ map (\<lambda>p. (''paint_index'', PInt p)) paint;
          what = ''def_index '' @ show_int def_index
                 @ concat (map (\<lambda>p. '' paint_index '' @ show_int p) paint)
      in case SortOption sort_by of
           None \<Rightarrow> Inr [Text (invalid_sort_message sort_by)]
         | Some sort_value \<Rightarrow>
             (case fetch_listings api b (ps @ [(''sort_by'', PStr sort_value)]) of
                Inl ex \<Rightarrow> Inl ex
              | Inr listings \<Rightarrow>
                  (case listings of
                     [] \<Rightarrow> Inr [Text (''[x] No listings found for '' @ what)]
                   | l # ls \<Rightarrow>
                       Inr [Text (''[check] Found '' @ show_nat (length listings)
                                  @ '' listings for '' @ what
                                  @ '' (sorted by '' @ sort_by @ '')''),
                            Example (create_listing_embed l)])))"

section \<open>The process as a run of events\<close>

text \<open>
  The bot starts with nothing seen and nothing tracked (lines 37 to 43). Afterwards a tick
  of the loop or a command changes it; each is taken as one step.
\<close>

definition init :: "string option \<Rightarrow> int \<Rightarrow> bot" where
  "init key ch =
     \<lparr>csfloat_api_key = key, channel_id = ch, seen_listings = {}, tracking_configs = []\<rparr>"

datatype event =
  Tick env
| Track endpoint "nat \<Rightarrow> bool" int string int int string
| Untrack string
| ListTracking
| TestFetch endpoint int "int option" int string

datatype outp = Dispatch dispatch | Reply reply

fun step :: "event \<Rightarrow> bot \<Rightarrow> bot \<times> outp list" where
  "step (Tick e) b = (case check_listings e b of (b', ds) \<Rightarrow> (b', map Dispatch ds))"
| "step (Track api ctx_ok ch name d p ptext) b =
     (case track_items api ctx_ok ch name d p ptext b of (b', rs) \<Rightarrow> (b', map Reply rs))"
| "step (Untrack name) b = (case untrack_items name b of (b', rs) \<Rightarrow> (b', map Reply rs))"
| "step ListTracking b = (b, map Reply (list_tracking b))"
| "step (TestFetch api d p limit sort_by) b =
     (b, case test_fetch api d p limit sort_by b of Inl ex \<Rightarrow> [] | Inr rs \<Rightarrow> map Reply rs)"

fun run :: "event list \<Rightarrow> bot \<Rightarrow> bot \<times> outp list" where
  "run [] b = (b, [])"
| "run (ev # evs) b =
     (case step ev b of (b1, o1) \<Rightarrow> (case run evs b1 of (b2, o2) \<Rightarrow> (b2, o1 @ o2)))"


text \<open>The ids of the listings that the calls of \<^verbatim>\<open>channel.send\<close> of a run are for, in order.\<close>

definition dispatched :: "outp list \<Rightarrow> string list" where
  "dispatched out =
     concat (map (\<lambda>x. case x of Dispatch d \<Rightarrow> [d_listing d] | Reply r \<Rightarrow> []) out)"

text \<open>The values of the fields of an embed that have a given name, in order.\<close>

definition field_values :: "string \<Rightarrow> embed \<Rightarrow> string list" where
  "field_values n e = map field_value (filter (\<lambda>f. field_name f = n) (embed_fields e))"

section \<open>Sample data\<close>

text \<open>Concrete listings, configurations and surroundings, for the examples below.\<close>

definition sample_listing :: "string \<Rightarrow> listing" where
  "sample_listing i =
     \<lparr>listing_id = i,
      listing_item = \<lparr>market_hash_name = ''AK-47 | Redline (Field-Tested)'', float_value = 1 / 4,
                      paint_seed = Some 661, wear_name = Some ''Field-Tested'',
                      is_stattrak = Some False, is_souvenir = None, rarity = Some 5,
                      stickers = None, icon_url = None\<rparr>,
      listing_seller = \<lparr>username = Some ''trader'', obfuscated_id = None\<rparr>,
      created_at = ''2024-01-01T00:00:00Z'',
      price = 9000,
      listing_reference = Some \<lparr>predicted_price = Some 10000, base_price = Some 9500\<rparr>,
      watchers = Some 2,
      description = None\<rparr>"

definition sample_config :: config where
  "sample_config =
     \<lparr>params = [(''def_index'', PInt 7), (''paint_index'', PInt 282),
                (''limit'', PInt 20), (''sort_by'', PStr ''best_deal'')],
      channel = 1\<rparr>"





section \<open>Properties of the scheduler\<close>

lemma mark_new_seen: "snd (mark_new ls new seen) = seen \<union> set (map listing_id ls)"
  by (induction ls arbitrary: new seen) auto

lemma mark_new_acc: "fst (mark_new ls new seen) = new @ fst (mark_new ls [] seen)"
proof (induction ls arbitrary: new seen)
  case Nil
  show ?case by simp
next
  case (Cons l ls)
  show ?case
  proof (cases "listing_id l \<in> seen")
    case True
    then show ?thesis using Cons.IH [of new seen] by simp
  next
    case False
    then show ?thesis
      using Cons.IH [of "new @ [l]" "insert (listing_id l) seen"]
            Cons.IH [of "[l]" "insert (listing_id l) seen"] by simp
  qed
qed

lemma mark_new_Cons:
  "fst (mark_new (l # ls) [] seen) =
     (if listing_id l \<in> seen then fst (mark_new ls [] seen)
      else l # fst (mark_new ls [] (insert (listing_id l) seen)))"
  using mark_new_acc [of ls "[l]" "insert (listing_id l) seen"] by simp

lemma mark_new_ids:
  "set (map listing_id (fst (mark_new ls [] seen))) = set (map listing_id ls) - seen"
proof (induction ls arbitrary: seen)
  case Nil
  show ?case by simp
next
  case (Cons l ls)
  show ?case unfolding mark_new_Cons using Cons.IH [of seen] Cons.IH [of "insert (listing_id l) seen"]
    by auto
qed

lemma mark_new_distinct: "distinct (map listing_id (fst (mark_new ls [] seen)))"
proof (induction ls arbitrary: seen)
  case Nil
  show ?case by simp
next
  case (Cons l ls)
  show ?case unfolding mark_new_Cons
    using Cons.IH [of seen] Cons.IH [of "insert (listing_id l) seen"]
          mark_new_ids [of ls "insert (listing_id l) seen"]
    by auto
qed

lemma mark_new_sublist: "set (fst (mark_new ls [] seen)) \<subseteq> set ls"
proof (induction ls arbitrary: seen)
  case Nil
  show ?case by simp
next
  case (Cons l ls)
  show ?case unfolding mark_new_Cons
    using Cons.IH [of seen] Cons.IH [of "insert (listing_id l) seen"] by auto
qed


lemma send_all_ids_prefix:
  "map d_listing (send_all ok name ls) = take (length (send_all ok name ls)) (map listing_id ls)"
  by (induction ls) (auto simp: Let_def)



lemma send_all_ok_all:
  "\<forall>l \<in> set ls. ok l \<Longrightarrow> list_all d_ok (send_all ok name ls)"
  by (induction ls) (auto simp: Let_def)

lemma send_all_config: "d \<in> set (send_all ok name ls) \<Longrightarrow> d_config d = name"
  by (induction ls) (auto simp: Let_def split: if_splits)

lemma send_all_embed:
  "d \<in> set (send_all ok name ls) \<Longrightarrow> \<exists>l \<in> set ls. d_listing d = listing_id l \<and> d_embed d = create_listing_embed l"
  by (induction ls) (auto simp: Let_def split: if_splits)

lemma fetch_listings_Inr: "\<exists>ls. fetch_listings api b ps = Inr ls"
  by (cases "fetch_try (api (build_request b ps))") (simp_all add: fetch_listings_def)

lemma check_config_inv:
  assumes "check_config e nc (b, out) = (b', out')"
  shows "\<exists>ds. out' = out @ ds \<and> distinct (map d_listing ds)
              \<and> set (map d_listing ds) \<subseteq> seen_listings b' - seen_listings b"
    and "seen_listings b \<subseteq> seen_listings b'"
    and "tracking_configs b' = tracking_configs b"
    and "channel_id b' = channel_id b"
    and "csfloat_api_key b' = csfloat_api_key b"
proof -
  obtain name cfg where nc: "nc = (name, cfg)" by (cases nc)
  obtain ls where f: "fetch_listings (env_api e name) b (params cfg) = Inr ls"
    using fetch_listings_Inr by blast
  define new where "new = fst (mark_new ls [] (seen_listings b))"
  define ds where "ds = send_all (send_ok e name) name (take 5 new)"
  have mn: "mark_new ls [] (seen_listings b) = (new, seen_listings b \<union> set (map listing_id ls))"
    using mark_new_seen [of ls "[]" "seen_listings b"] by (simp add: new_def prod_eq_iff)
  have r: "b' = b\<lparr>seen_listings := seen_listings b \<union> set (map listing_id ls)\<rparr>" "out' = out @ ds"
    using assms by (simp_all add: check_config_def nc f mn ds_def)
  have ids: "map d_listing ds = take (length ds) (map listing_id (take 5 new))"
    unfolding ds_def by (rule send_all_ids_prefix)
  have dn: "distinct (map listing_id new)" unfolding new_def by (rule mark_new_distinct)
  have sn: "set (map listing_id new) = set (map listing_id ls) - seen_listings b"
    unfolding new_def by (rule mark_new_ids)
  have "distinct (map listing_id (take 5 new))"
    using dn by (simp add: take_map [symmetric] del: take_map)
  then have d1: "distinct (map d_listing ds)" unfolding ids by (rule distinct_take)
  have "set (map d_listing ds) \<subseteq> set (map listing_id (take 5 new))"
    unfolding ids by (rule set_take_subset)
  also have "\<dots> \<subseteq> set (map listing_id new)"
    by (metis set_take_subset take_map)
  finally have d2: "set (map d_listing ds) \<subseteq> seen_listings b' - seen_listings b"
    using sn r(1) by auto
  show "\<exists>ds. out' = out @ ds \<and> distinct (map d_listing ds)
              \<and> set (map d_listing ds) \<subseteq> seen_listings b' - seen_listings b"
    using r(2) d1 d2 by blast
  show "seen_listings b \<subseteq> seen_listings b'" using r(1) by auto
  show "tracking_configs b' = tracking_configs b" "channel_id b' = channel_id b"
       "csfloat_api_key b' = csfloat_api_key b"
    using r(1) by simp_all
qed

lemma fold_check_config_inv:
  "fold (check_config e) cfgs (b, out) = (b', out') \<Longrightarrow>
   (\<exists>ds. out' = out @ ds \<and> distinct (map d_listing ds)
         \<and> set (map d_listing ds) \<subseteq> seen_listings b' - seen_listings b)
   \<and> seen_listings b \<subseteq> seen_listings b'
   \<and> tracking_configs b' = tracking_configs b
   \<and> channel_id b' = channel_id b
   \<and> csfloat_api_key b' = csfloat_api_key b"
proof (induction cfgs arbitrary: b out)
  case Nil
  then show ?case by simp
next
  case (Cons nc cfgs)
  obtain b1 out1 where s1: "check_config e nc (b, out) = (b1, out1)"
    by (cases "check_config e nc (b, out)")
  from check_config_inv [OF s1] obtain ds1 where
    a: "out1 = out @ ds1" "distinct (map d_listing ds1)"
       "set (map d_listing ds1) \<subseteq> seen_listings b1 - seen_listings b"
    and a': "seen_listings b \<subseteq> seen_listings b1" "tracking_configs b1 = tracking_configs b"
       "channel_id b1 = channel_id b" "csfloat_api_key b1 = csfloat_api_key b"
    by blast
  have "fold (check_config e) cfgs (b1, out1) = (b', out')"
    using Cons.prems s1 by simp
  from Cons.IH [OF this] obtain ds2 where
    c: "out' = out1 @ ds2" "distinct (map d_listing ds2)"
       "set (map d_listing ds2) \<subseteq> seen_listings b' - seen_listings b1"
    and c': "seen_listings b1 \<subseteq> seen_listings b'" "tracking_configs b' = tracking_configs b1"
       "channel_id b' = channel_id b1" "csfloat_api_key b' = csfloat_api_key b1"
    by blast
  have "out' = out @ (ds1 @ ds2)" using a(1) c(1) by simp
  moreover have "distinct (map d_listing (ds1 @ ds2))"
    using a(2,3) c(2,3) by auto
  moreover have "set (map d_listing (ds1 @ ds2)) \<subseteq> seen_listings b' - seen_listings b"
    using a(3) c(3) a'(1) c'(1) by auto
  moreover have "seen_listings b \<subseteq> seen_listings b'" using a'(1) c'(1) by (rule order_trans)
  moreover have "tracking_configs b' = tracking_configs b" using a'(2) c'(2) by simp
  moreover have "channel_id b' = channel_id b" using a'(3) c'(3) by simp
  moreover have "csfloat_api_key b' = csfloat_api_key b" using a'(4) c'(4) by simp
  ultimately show ?case by blast
qed

lemma check_listings_inv:
  assumes "check_listings e b = (b', ds)"
  shows "distinct (map d_listing ds)
    \<and> set (map d_listing ds) \<subseteq> seen_listings b' - seen_listings b
    \<and> seen_listings b \<subseteq> seen_listings b'
    \<and> tracking_configs b' = tracking_configs b
    \<and> channel_id b' = channel_id b
    \<and> csfloat_api_key b' = csfloat_api_key b"
proof (cases "tracking_configs b = [] \<or> \<not> get_channel e (channel_id b)")
  case True
  then have "check_listings e b = (b, [])" unfolding check_listings_def by auto
  then have "b' = b" "ds = []" using assms by simp_all
  then show ?thesis by simp
next
  case False
  then have "check_listings e b = fold (check_config e) (tracking_configs b) (b, [])"
    unfolding check_listings_def by simp
  then have "fold (check_config e) (tracking_configs b) (b, []) = (b', ds)"
    using assms by simp
  from fold_check_config_inv [OF this] show ?thesis by simp
qed

section \<open>Properties of the commands and of runs\<close>

lemma fold_insert_ids:
  "fold (\<lambda>l s. insert (listing_id l) s) ls s = s \<union> set (map listing_id ls)"
  by (induction ls arbitrary: s) auto

lemma dispatched_Reply [simp]: "dispatched (map Reply rs) = []"
  by (induction rs) (simp_all add: dispatched_def)

lemma dispatched_Dispatch [simp]: "dispatched (map Dispatch ds) = map d_listing ds"
  by (induction ds) (simp_all add: dispatched_def)

lemma dispatched_append [simp]: "dispatched (xs @ ys) = dispatched xs @ dispatched ys"
  by (simp add: dispatched_def)

lemma dispatched_Nil [simp]: "dispatched [] = []"
  by (simp add: dispatched_def)

text \<open>What a track command that passes the validation of its parameters does to the state.\<close>

lemma track_items_accepted:
  assumes "parse_params (if ptext = [] then [] else py_split ptext)
             [(''def_index'', PInt d), (''paint_index'', PInt p),
              (''limit'', PInt 20), (''sort_by'', PStr ''best_deal'')] = Inr pd"
  shows "\<exists>S. fst (track_items api ctx_ok ch name d p ptext b) =
           b\<lparr>tracking_configs := dict_set name \<lparr>params = pd, channel = ch\<rparr> (tracking_configs b),
             channel_id := (if length (dict_set name \<lparr>params = pd, channel = ch\<rparr> (tracking_configs b)) = 1
                            then ch else channel_id b),
             seen_listings := seen_listings b \<union> S\<rparr>"
proof -
  let ?b1 = "b\<lparr>tracking_configs := dict_set name \<lparr>params = pd, channel = ch\<rparr> (tracking_configs b)\<rparr>"
  let ?b2 = "if length (tracking_configs ?b1) = 1 then ?b1\<lparr>channel_id := ch\<rparr> else ?b1"
  obtain initial where f: "fetch_listings api ?b2 pd = Inr initial"
    using fetch_listings_Inr by blast
  show ?thesis
  proof (cases "ctx_ok 0 \<and> initial \<noteq> []")
    case True
    then have "fst (track_items api ctx_ok ch name d p ptext b) =
        ?b2\<lparr>seen_listings := seen_listings ?b2 \<union> set (map listing_id initial)\<rparr>"
      unfolding track_items_def Let_def using assms f
      by (simp add: fold_insert_ids)
    then show ?thesis by (intro exI [of _ "set (map listing_id initial)"]) simp
  next
    case False
    then have "fst (track_items api ctx_ok ch name d p ptext b) = ?b2"
      unfolding track_items_def Let_def using assms f by auto
    then show ?thesis by (intro exI [of _ "{}"]) simp
  qed
qed

lemma track_items_rejected:
  assumes "parse_params (if ptext = [] then [] else py_split ptext)
             [(''def_index'', PInt d), (''paint_index'', PInt p),
              (''limit'', PInt 20), (''sort_by'', PStr ''best_deal'')] = Inl v"
  shows "track_items api ctx_ok ch name d p ptext b =
           (b, Text (invalid_sort_message v) # (if ctx_ok 0 then [] else [SetupError]))"
  unfolding track_items_def Let_def using assms by simp

lemma track_items_seen:
  "seen_listings b \<subseteq> seen_listings (fst (track_items api ctx_ok ch name d p ptext b))"
proof (cases "parse_params (if ptext = [] then [] else py_split ptext)
             [(''def_index'', PInt d), (''paint_index'', PInt p),
              (''limit'', PInt 20), (''sort_by'', PStr ''best_deal'')]")
  case (Inl v)
  show ?thesis unfolding track_items_rejected [OF Inl] by simp
next
  case (Inr pd)
  from track_items_accepted [OF Inr, of api ctx_ok ch name b] obtain S where
    "fst (track_items api ctx_ok ch name d p ptext b) =
           b\<lparr>tracking_configs := dict_set name \<lparr>params = pd, channel = ch\<rparr> (tracking_configs b),
             channel_id := (if length (dict_set name \<lparr>params = pd, channel = ch\<rparr> (tracking_configs b)) = 1
                            then ch else channel_id b),
             seen_listings := seen_listings b \<union> S\<rparr>" by blast
  then show ?thesis by simp
qed

lemma untrack_items_seen: "seen_listings (fst (untrack_items name b)) = seen_listings b"
  by (simp add: untrack_items_def)

lemma step_inv:
  assumes "step ev b = (b', out)"
  shows "distinct (dispatched out) \<and> set (dispatched out) \<subseteq> seen_listings b' - seen_listings b
         \<and> seen_listings b \<subseteq> seen_listings b'"
proof (cases ev)
  case (Tick e)
  obtain b1 ds where c: "check_listings e b = (b1, ds)" by (cases "check_listings e b")
  then have "b' = b1" "out = map Dispatch ds" using assms Tick by simp_all
  then show ?thesis using check_listings_inv [OF c] by simp
next
  case (Track api ctx_ok ch name d p ptext)
  obtain b1 rs where c: "track_items api ctx_ok ch name d p ptext b = (b1, rs)"
    by (cases "track_items api ctx_ok ch name d p ptext b")
  then have "b' = b1" "out = map Reply rs" using assms Track by simp_all
  moreover have "seen_listings b \<subseteq> seen_listings b1"
    using track_items_seen [of b api ctx_ok ch name d p ptext] c by simp
  ultimately show ?thesis by simp
next
  case (Untrack name)
  obtain b1 rs where c: "untrack_items name b = (b1, rs)" by (cases "untrack_items name b")
  then have "b' = b1" "out = map Reply rs" using assms Untrack by simp_all
  moreover have "seen_listings b1 = seen_listings b"
    using untrack_items_seen [of name b] c by simp
  ultimately show ?thesis by simp
next
  case ListTracking
  then show ?thesis using assms by auto
next
  case (TestFetch api d p limit sort_by)
  then show ?thesis using assms by (auto split: sum.splits)
qed

lemma run_inv:
  "run evs b = (b', out) \<Longrightarrow>
   distinct (dispatched out) \<and> set (dispatched out) \<subseteq> seen_listings b' - seen_listings b
   \<and> seen_listings b \<subseteq> seen_listings b'"
proof (induction evs arbitrary: b b' out)
  case Nil
  then show ?case by simp
next
  case (Cons ev evs)
  obtain b1 o1 where s: "step ev b = (b1, o1)" by (cases "step ev b")
  obtain b2 o2 where r: "run evs b1 = (b2, o2)" by (cases "run evs b1")
  have e: "b' = b2" "out = o1 @ o2" using Cons.prems s r by simp_all
  note i1 = step_inv [OF s] and i2 = Cons.IH [OF r]
  have "distinct (dispatched (o1 @ o2))" using i1 i2 by auto
  moreover have "set (dispatched (o1 @ o2)) \<subseteq> seen_listings b2 - seen_listings b"
    using i1 i2 by auto
  moreover have "seen_listings b \<subseteq> seen_listings b2" using i1 i2 by auto
  ultimately show ?case using e by simp
qed




lemma sample_listing_id [simp]: "listing_id (sample_listing i) = i"
  by (simp add: sample_listing_def)







lemma fetch_listings_key:
  "csfloat_api_key b1 = csfloat_api_key b \<Longrightarrow> fetch_listings api b1 ps = fetch_listings api b ps"
  by (simp add: fetch_listings_def build_request_def)

lemma map_of_dict_set: "map_of (dict_set k v d) k = Some v"
  by (induction d) auto

lemma track_items_seeded:
  assumes "parse_params (if ptext = [] then [] else py_split ptext)
             [(''def_index'', PInt d), (''paint_index'', PInt p),
              (''limit'', PInt 20), (''sort_by'', PStr ''best_deal'')] = Inr pd"
    and "ctx_ok 0"
    and "fetch_listings api b pd = Inr initial"
  shows "fst (track_items api ctx_ok ch name d p ptext b) =
           b\<lparr>tracking_configs := dict_set name \<lparr>params = pd, channel = ch\<rparr> (tracking_configs b),
             channel_id := (if length (dict_set name \<lparr>params = pd, channel = ch\<rparr> (tracking_configs b)) = 1
                            then ch else channel_id b),
             seen_listings := seen_listings b \<union> set (map listing_id initial)\<rparr>"
proof -
  let ?b1 = "b\<lparr>tracking_configs := dict_set name \<lparr>params = pd, channel = ch\<rparr> (tracking_configs b)\<rparr>"
  let ?b2 = "if length (tracking_configs ?b1) = 1 then ?b1\<lparr>channel_id := ch\<rparr> else ?b1"
  have "fetch_listings api ?b2 pd = fetch_listings api b pd"
    by (rule fetch_listings_key) simp
  then have f: "fetch_listings api ?b2 pd = Inr initial" using assms(3) by simp
  show ?thesis
  proof (cases "initial = []")
    case True
    then have "fst (track_items api ctx_ok ch name d p ptext b) = ?b2"
      unfolding track_items_def Let_def using assms(1,2) f by simp
    then show ?thesis using True by simp
  next
    case False
    then have "fst (track_items api ctx_ok ch name d p ptext b) =
        ?b2\<lparr>seen_listings := seen_listings ?b2 \<union> set (map listing_id initial)\<rparr>"
      unfolding track_items_def Let_def using assms(1,2) f
      by (simp add: fold_insert_ids)
    then show ?thesis by simp
  qed
qed

lemma sort_by_token:
  "takeWhile (\<lambda>c. c \<noteq> CHR ''='') (''sort_by='' @ v) = ''sort_by''"
  "tl (dropWhile (\<lambda>c. c \<noteq> CHR ''='') (''sort_by='' @ v)) = v"
  "CHR ''='' \<in> set (''sort_by='' @ v)"
  by simp_all

lemma parse_params_invalid:
  "''sort_by='' @ v \<in> set toks \<Longrightarrow> v \<notin> set sort_options \<Longrightarrow>
   \<exists>w. parse_params toks pd = Inl w \<and> w \<notin> set sort_options \<and> ''sort_by='' @ w \<in> set toks"
proof (induction toks arbitrary: pd)
  case Nil
  then show ?case by simp
next
  case (Cons tok toks)
  show ?case
  proof (cases "\<exists>w. parse_params [tok] pd = Inl w")
    case True
    then obtain w where w: "parse_params [tok] pd = Inl w" by blast
    let ?key = "takeWhile (\<lambda>c. c \<noteq> CHR ''='') tok"
    let ?val = "tl (dropWhile (\<lambda>c. c \<noteq> CHR ''='') tok)"
    from w have e: "CHR ''='' \<in> set tok" by (auto split: if_splits)
    with w have k: "?key = ''sort_by''" by (auto simp: Let_def split: if_splits)
    with w e have v: "?val = w" "SortOption w = None"
      by (auto simp: Let_def split: if_splits option.splits)
    have "dropWhile (\<lambda>c. c \<noteq> CHR ''='') tok \<noteq> []" using e by simp
    then obtain c cs where d: "dropWhile (\<lambda>c. c \<noteq> CHR ''='') tok = c # cs"
      by (cases "dropWhile (\<lambda>c. c \<noteq> CHR ''='') tok") auto
    have "c = CHR ''=''" using hd_dropWhile [of "\<lambda>c. c \<noteq> CHR ''=''" tok] d by auto
    then have "tok = ?key @ CHR ''='' # ?val"
      using takeWhile_dropWhile_id [of "\<lambda>c. c \<noteq> CHR ''=''" tok] d by simp
    then have tok: "tok = ''sort_by='' @ w" using k v(1) by simp
    have "parse_params (tok # toks) pd = Inl w"
      using w e k v by (simp add: Let_def)
    moreover have "w \<notin> set sort_options" using v(2) by (simp add: SortOption_def split: if_splits)
    ultimately show ?thesis using tok by auto
  next
    case False
    then obtain pd' where s: "parse_params [tok] pd = Inr pd'"
      by (cases "parse_params [tok] pd") auto
    have step: "parse_params (tok # toks) pd = parse_params toks pd'"
      using s by (auto simp: Let_def split: if_splits option.splits)
    have "tok \<noteq> ''sort_by='' @ v"
    proof
      assume "tok = ''sort_by='' @ v"
      then have "parse_params [tok] pd = Inl v"
        using Cons.prems(2) by (simp add: SortOption_def)
      then show False using s by simp
    qed
    then have "''sort_by='' @ v \<in> set toks" using Cons.prems(1) by simp
    from Cons.IH [OF this Cons.prems(2), of pd'] obtain w where
      "parse_params toks pd' = Inl w" "w \<notin> set sort_options" "''sort_by='' @ w \<in> set toks"
      by blast
    then show ?thesis using step by auto
  qed
qed

lemma py_split_Nil [simp]: "py_split [] = []"
  by (simp add: py_split_def)

lemma split_bogus:
  "py_split ''max_float=0.15 sort_by=bogus'' = [''max_float=0.15'', ''sort_by=bogus'']"
  by code_simp

lemma parse_max_float:
  "parse_params (py_split ''max_float=0.15'')
     [(''def_index'', PInt 7), (''paint_index'', PInt 282),
      (''limit'', PInt 20), (''sort_by'', PStr ''best_deal'')]
   = Inr [(''def_index'', PInt 7), (''paint_index'', PInt 282),
          (''limit'', PInt 20), (''sort_by'', PStr ''best_deal''),
          (''max_float'', PFloat (15 / 100))]"
  by code_simp

lemma dict_set_not_Nil [simp]: "dict_set k v d \<noteq> []"
  by (cases d) (auto split: if_splits)

lemma length_dict_set_one:
  "length (dict_set k v d) = Suc 0 \<longleftrightarrow> d = [] \<or> map fst d = [k]"
proof (cases d)
  case Nil
  then show ?thesis by simp
next
  case (Cons x xs)
  obtain k' v' where x: "x = (k', v')" by (cases x)
  show ?thesis unfolding Cons x by auto
qed

section \<open>Properties of the notification builder\<close>









lemma seller_field_value:
  "field_values ''[bust] Seller'' (create_listing_embed l) = [seller_name (listing_seller l)]"
  by (simp add: field_values_def create_listing_embed_def Let_def add_field_def
        special_field_def seller_field_def sticker_fields_def watcher_fields_def
        note_fields_def reference_fields_def divergence_field_def split: option.splits)

section \<open>The claims\<close>






text \<open>
  C3. The seller field of the code at the six combinations of the chain. A seller without
  the \<^verbatim>\<open>username\<close> key and with an obfuscated id is shown as \<open>Anonymous\<close>, not as
  \<open>User 12345678...\<close>: the default of \<^verbatim>\<open>seller.get\<close> is not empty, so the test of line 122
  fails. A seller with an empty username and no obfuscated id is shown with the empty name.
\<close>

theorem absent_username_shows_anonymous:
  "seller_name \<lparr>username = None, obfuscated_id = Some ''1234567890abcdef''\<rparr> = ''Anonymous''
   \<and> field_values ''[bust] Seller''
        (create_listing_embed ((sample_listing ''id1'')
           \<lparr>listing_seller := \<lparr>username = None, obfuscated_id = Some ''1234567890abcdef''\<rparr>\<rparr>))
       = [''Anonymous'']
   \<and> seller_name \<lparr>username = Some '''', obfuscated_id = Some ''1234567890abcdef''\<rparr> = ''User 12345678...''
   \<and> seller_name \<lparr>username = Some '''', obfuscated_id = None\<rparr> = ''''
   \<and> seller_name \<lparr>username = Some ''trader'', obfuscated_id = Some ''1234567890abcdef''\<rparr> = ''trader''
   \<and> seller_name \<lparr>username = None, obfuscated_id = None\<rparr> = ''Anonymous''"
  by (simp add: seller_field_value seller_name_def)



text \<open>
  C5. A track command with a token \<^verbatim>\<open>sort_by=v\<close> whose \<open>v\<close> is not a sort option is rejected:
  the reply names an offending value of the command and the valid options, and the bot,
  its tracking configurations with it, is unchanged, so that \<^verbatim>\<open>list_tracking\<close> shows what it
  showed before.
\<close>

theorem invalid_sort_option_rejected:
  assumes "''sort_by='' @ v \<in> set (py_split ptext)"
    and "v \<notin> set sort_options"
  shows "\<exists>w. ''sort_by='' @ w \<in> set (py_split ptext) \<and> w \<notin> set sort_options
           \<and> track_items api ctx_ok ch name d p ptext b =
               (b, Text (invalid_sort_message w) # (if ctx_ok 0 then [] else [SetupError]))
           \<and> invalid_sort_message w =
               ''[x] Invalid sort option '' @ [CHR 0x27] @ w @ [CHR 0x27] @ ''. Valid options: ''
               @ ''best_deal, highest_discount, lowest_price, highest_price, ''
               @ ''most_recent, lowest_float, highest_float, created_at''
           \<and> tracking_configs (fst (track_items api ctx_ok ch name d p ptext b)) = tracking_configs b
           \<and> list_tracking (fst (track_items api ctx_ok ch name d p ptext b)) = list_tracking b"
proof -
  let ?pd = "[(''def_index'', PInt d), (''paint_index'', PInt p),
              (''limit'', PInt 20), (''sort_by'', PStr ''best_deal'')]"
  have ne: "ptext \<noteq> []" using assms(1) by auto
  from parse_params_invalid [OF assms, of ?pd] obtain w where
    w: "parse_params (py_split ptext) ?pd = Inl w" "w \<notin> set sort_options"
       "''sort_by='' @ w \<in> set (py_split ptext)"
    by blast
  have "parse_params (if ptext = [] then [] else py_split ptext) ?pd = Inl w"
    using w(1) ne by simp
  note r = track_items_rejected [OF this, of api ctx_ok ch name b]
  have m: "invalid_sort_message w =
               ''[x] Invalid sort option '' @ [CHR 0x27] @ w @ [CHR 0x27] @ ''. Valid options: ''
               @ ''best_deal, highest_discount, lowest_price, highest_price, ''
               @ ''most_recent, lowest_float, highest_float, created_at''"
    by (simp add: invalid_sort_message_def sort_options_def)
  show ?thesis
    using w(2,3) r m by (intro exI [of _ w]) simp
qed

text \<open>C5 at \<^verbatim>\<open>sort_by=bogus\<close>, on a bot that tracks nothing.\<close>

theorem invalid_sort_option_rejected_witness:
  "track_items (\<lambda>r. TransportError) (\<lambda>n. True) 1 ''X'' 7 282 ''max_float=0.15 sort_by=bogus'' (init None 1)
     = (init None 1, [Text (invalid_sort_message ''bogus'')])
   \<and> list_tracking (fst (track_items (\<lambda>r. TransportError) (\<lambda>n. True) 1 ''X'' 7 282
                            ''max_float=0.15 sort_by=bogus'' (init None 1)))
       = [Text ''No items are currently being tracked.'']"
proof -
  have t: "''sort_by='' @ ''bogus'' \<in> set (py_split ''max_float=0.15 sort_by=bogus'')"
    unfolding split_bogus by simp
  have n: "''bogus'' \<notin> set sort_options" by (simp add: sort_options_def)
  from invalid_sort_option_rejected [OF t n, of "\<lambda>r. TransportError" "\<lambda>n. True" 1 "''X''" 7 282 "init None 1"]
  obtain w where
    w: "''sort_by='' @ w \<in> set (py_split ''max_float=0.15 sort_by=bogus'')"
    and r: "track_items (\<lambda>r. TransportError) (\<lambda>n. True) 1 ''X'' 7 282 ''max_float=0.15 sort_by=bogus'' (init None 1)
              = (init None 1, Text (invalid_sort_message w) # (if True then [] else [SetupError]))"
    and l: "list_tracking (fst (track_items (\<lambda>r. TransportError) (\<lambda>n. True) 1 ''X'' 7 282
                            ''max_float=0.15 sort_by=bogus'' (init None 1))) = list_tracking (init None 1)"
    by blast
  have "w = ''bogus''" using w unfolding split_bogus by simp
  then show ?thesis using r l by (simp add: list_tracking_def init_def)
qed



text \<open>
  C7. After \<^verbatim>\<open>track "X" 7 282 max_float=0.15\<close> the configuration \<open>X\<close> holds exactly
  \<open>def_index = 7\<close>, \<open>paint_index = 282\<close>, \<open>limit = 20\<close>, \<open>sort_by = best_deal\<close> and the float
  \<open>max_float = 0.15\<close>, and \<^verbatim>\<open>list_tracking\<close> on a bot that tracked nothing before shows
  this one entry.
\<close>

theorem track_then_list_round_trip:
  "list_tracking (fst (track_items api ctx_ok ch ''X'' 7 282 ''max_float=0.15'' (init key c)))
     = [TrackingList
          [(''X'', [(''def_index'', PInt 7), (''paint_index'', PInt 282),
                    (''limit'', PInt 20), (''sort_by'', PStr ''best_deal''),
                    (''max_float'', PFloat (15 / 100))])]]
   \<and> map_of (tracking_configs (fst (track_items api ctx_ok ch ''X'' 7 282 ''max_float=0.15'' b))) ''X''
     = Some \<lparr>params = [(''def_index'', PInt 7), (''paint_index'', PInt 282),
                        (''limit'', PInt 20), (''sort_by'', PStr ''best_deal''),
                        (''max_float'', PFloat (15 / 100))],
              channel = ch\<rparr>"
proof -
  let ?pd = "[(''def_index'', PInt 7), (''paint_index'', PInt 282),
              (''limit'', PInt 20), (''sort_by'', PStr ''best_deal''),
              (''max_float'', PFloat (15 / 100))]"
  have p: "parse_params (if ''max_float=0.15'' = [] then [] else py_split ''max_float=0.15'')
             [(''def_index'', PInt 7), (''paint_index'', PInt 282),
              (''limit'', PInt 20), (''sort_by'', PStr ''best_deal'')] = Inr ?pd"
    using parse_max_float by simp
  have cfgs: "tracking_configs (fst (track_items api ctx_ok ch ''X'' 7 282 ''max_float=0.15'' b'))
                = dict_set ''X'' \<lparr>params = ?pd, channel = ch\<rparr> (tracking_configs b')" for b'
    using track_items_accepted [OF p, of api ctx_ok ch "''X''" b'] by auto
  have 1: "list_tracking (fst (track_items api ctx_ok ch ''X'' 7 282 ''max_float=0.15'' (init key c)))
     = [TrackingList [(''X'', ?pd)]]"
    unfolding list_tracking_def cfgs by (simp add: init_def)
  have 2: "map_of (tracking_configs (fst (track_items api ctx_ok ch ''X'' 7 282 ''max_float=0.15'' b))) ''X''
     = Some \<lparr>params = ?pd, channel = ch\<rparr>"
    unfolding cfgs by (rule map_of_dict_set)
  show ?thesis using 1 2 by blast
qed

text \<open>C7 at an endpoint that fails and a context that accepts every reply.\<close>

theorem track_then_list_round_trip_witness:
  "list_tracking (fst (track_items (\<lambda>r. TransportError) (\<lambda>n. True) 1 ''X'' 7 282 ''max_float=0.15'' (init None 1)))
     = [TrackingList
          [(''X'', [(''def_index'', PInt 7), (''paint_index'', PInt 282),
                    (''limit'', PInt 20), (''sort_by'', PStr ''best_deal''),
                    (''max_float'', PFloat (15 / 100))])]]"
  using track_then_list_round_trip [of "\<lambda>r. TransportError" "\<lambda>n. True" 1 None 1] by (rule conjunct1)

text \<open>
  C8, as stated, fails: after \<open>X\<close> is tracked from channel 1 into an empty store, tracking
  \<open>X\<close> again from channel 2 overwrites the only entry and moves the default destination
  to channel 2.
\<close>

theorem overwriting_sole_entry_moves_destination:
  "channel_id (fst (track_items (\<lambda>r. TransportError) (\<lambda>n. True) 1 ''X'' 7 282 '''' (init None 0))) = 1
   \<and> channel_id (fst (track_items (\<lambda>r. TransportError) (\<lambda>n. True) 2 ''X'' 7 282 ''''
         (fst (track_items (\<lambda>r. TransportError) (\<lambda>n. True) 1 ''X'' 7 282 '''' (init None 0))))) = 2"
proof -
  let ?pd = "[(''def_index'', PInt 7), (''paint_index'', PInt 282),
              (''limit'', PInt 20), (''sort_by'', PStr ''best_deal'')]"
  have p: "parse_params (if ('''' :: string) = [] then [] else py_split '''') ?pd = Inr ?pd"
    by simp
  have f: "fetch_listings (\<lambda>r. TransportError) b ?pd = Inr []" for b
    by (simp add: fetch_listings_def fetch_try_def)
  have t: "fst (track_items (\<lambda>r. TransportError) (\<lambda>n. True) ch ''X'' 7 282 '''' b) =
           b\<lparr>tracking_configs := dict_set ''X'' \<lparr>params = ?pd, channel = ch\<rparr> (tracking_configs b),
             channel_id := (if length (dict_set ''X'' \<lparr>params = ?pd, channel = ch\<rparr> (tracking_configs b)) = 1
                            then ch else channel_id b),
             seen_listings := seen_listings b \<union> set (map listing_id ([] :: listing list))\<rparr>" for ch b
    by (rule track_items_seeded [where ctx_ok = "\<lambda>n. True", OF p _ f]) simp
  show ?thesis unfolding t by (simp add: init_def)
qed

text \<open>
  C8, amended. An accepted track command sets the default destination to its channel
  exactly when the store holds one entry afterwards: when the store was empty, or held
  only the name that is overwritten. Any other accepted track command leaves it unchanged.
\<close>

theorem default_destination_rule:
  assumes "parse_params (if ptext = [] then [] else py_split ptext)
             [(''def_index'', PInt d), (''paint_index'', PInt p),
              (''limit'', PInt 20), (''sort_by'', PStr ''best_deal'')] = Inr pd"
  shows "channel_id (fst (track_items api ctx_ok ch name d p ptext b)) =
           (if tracking_configs b = [] \<or> map fst (tracking_configs b) = [name]
            then ch else channel_id b)"
proof -
  from track_items_accepted [OF assms, of api ctx_ok ch name b] obtain S where
    "fst (track_items api ctx_ok ch name d p ptext b) =
           b\<lparr>tracking_configs := dict_set name \<lparr>params = pd, channel = ch\<rparr> (tracking_configs b),
             channel_id := (if length (dict_set name \<lparr>params = pd, channel = ch\<rparr> (tracking_configs b)) = 1
                            then ch else channel_id b),
             seen_listings := seen_listings b \<union> S\<rparr>"
    by blast
  then show ?thesis by (simp add: length_dict_set_one)
qed

text \<open>The amended C8 at an empty store and at a store of two other names.\<close>

theorem default_destination_rule_witness:
  "channel_id (fst (track_items (\<lambda>r. TransportError) (\<lambda>n. True) 7 ''X'' 7 282 '''' (init None 0))) = 7
   \<and> channel_id (fst (track_items (\<lambda>r. TransportError) (\<lambda>n. True) 7 ''Y'' 7 282 ''''
        ((init None 0)\<lparr>tracking_configs := [(''X'', sample_config), (''Z'', sample_config)]\<rparr>))) = 0"
proof -
  let ?pd = "[(''def_index'', PInt 7), (''paint_index'', PInt 282),
              (''limit'', PInt 20), (''sort_by'', PStr ''best_deal'')]"
  have p: "parse_params (if ('''' :: string) = [] then [] else py_split '''') ?pd = Inr ?pd"
    by simp
  show ?thesis
    using default_destination_rule [OF p, of "\<lambda>r. TransportError" "\<lambda>n. True" 7 "''X''" "init None 0"]
          default_destination_rule [OF p, of "\<lambda>r. TransportError" "\<lambda>n. True" 7 "''Y''"
                "(init None 0)\<lparr>tracking_configs := [(''X'', sample_config), (''Z'', sample_config)]\<rparr>"]
    by (simp add: init_def)
qed

text \<open>
  C9. The set of seen listings only grows: whatever the operation (a polling cycle,
  \<^verbatim>\<open>track\<close>, \<^verbatim>\<open>untrack\<close>, \<^verbatim>\<open>list_tracking\<close>, \<^verbatim>\<open>test\<close>), every id that is in the set before it
  is in the set after it, and so it is after any run of operations.
\<close>

theorem seen_listings_monotone:
  "seen_listings b \<subseteq> seen_listings (fst (step ev b))
   \<and> seen_listings b \<subseteq> seen_listings (fst (run evs b))"
proof
  obtain b1 o1 where s: "step ev b = (b1, o1)" by (cases "step ev b")
  show "seen_listings b \<subseteq> seen_listings (fst (step ev b))"
    using step_inv [OF s] s by simp
  obtain b2 o2 where r: "run evs b = (b2, o2)" by (cases "run evs b")
  show "seen_listings b \<subseteq> seen_listings (fst (run evs b))"
    using run_inv [OF r] r by simp
qed

theorem seen_listings_monotone_witness:
  "''a'' \<in> seen_listings (fst (run [Untrack ''X'', ListTracking, Tick \<lparr>get_channel = (\<lambda>c. True), env_api = (\<lambda>n r. TransportError), send_ok = (\<lambda>n l. True)\<rparr>]
                                    ((init None 1)\<lparr>seen_listings := {''a''}\<rparr>)))"
  using seen_listings_monotone [of "(init None 1)\<lparr>seen_listings := {''a''}\<rparr>" ListTracking
          "[Untrack ''X'', ListTracking, Tick \<lparr>get_channel = (\<lambda>c. True), env_api = (\<lambda>n r. TransportError), send_ok = (\<lambda>n l. True)\<rparr>]"]
  by (auto simp: init_def)



end
